theory Spec2Isabelle
  imports Complex_Main
begin

section \<open>Page elements\<close>

text \<open>
  The scripts query the page once and then only read a few properties of the elements
  they found. A \<^verbatim>\<open>section[id]\<close> element is its \<^verbatim>\<open>id\<close> attribute, its
  \<^verbatim>\<open>offsetTop\<close> and its \<^verbatim>\<open>clientHeight\<close> (both integers in the DOM). A
  \<^verbatim>\<open>.nav-link\<close> element is its \<^verbatim>\<open>href\<close> attribute (\<^verbatim>\<open>getAttribute\<close> gives
  \<^verbatim>\<open>null\<close> when the attribute is missing) and its class list. Only membership in a class
  list is ever observed, so a class list is a set of tokens. Scroll positions are
  fractional numbers.
\<close>

record section_el =
  id_attr :: string
  offsetTop :: int
  clientHeight :: int

record nav_link =
  href :: "string option"
  classList :: "string set"

definition classList_add :: "string \<Rightarrow> string set \<Rightarrow> string set" where
  "classList_add token cl = insert token cl"

definition classList_remove :: "string \<Rightarrow> string set \<Rightarrow> string set" where
  "classList_remove token cl = cl - {token}"

text \<open>\<^verbatim>\<open>classList.toggle(token, force)\<close>: adds the token when \<^verbatim>\<open>force\<close> is true, removes it otherwise.\<close>

definition classList_toggle :: "string \<Rightarrow> bool \<Rightarrow> string set \<Rightarrow> string set" where
  "classList_toggle token force cl =
     (if force then classList_add token cl else classList_remove token cl)"

definition is_active :: "nav_link \<Rightarrow> bool" where
  "is_active link = (''active'' \<in> classList link)"

definition at_most_one_active :: "nav_link list \<Rightarrow> bool" where
  "at_most_one_active links = (length (filter is_active links) \<le> 1)"

section \<open>The scroll handler for the active navigation link (unnamed file, lines 25 to 45)\<close>

text \<open>
  The first loop: \<^verbatim>\<open>current\<close> starts as the empty string and is overwritten by the id of
  every section with \<^verbatim>\<open>scrollY >= sectionTop - 200\<close>, in document order. The handler
  reads \<^verbatim>\<open>clientHeight\<close> into \<^verbatim>\<open>sectionHeight\<close> and never uses it.
\<close>

definition legacy_current :: "section_el list \<Rightarrow> rat \<Rightarrow> string" where
  "legacy_current secs scrollY =
     foldl (\<lambda>current s. if of_int (offsetTop s - 200) \<le> scrollY then id_attr s else current)
       [] secs"

text \<open>The second loop, for one link: remove \<^verbatim>\<open>active\<close>, then add it back when the href matches.\<close>

definition legacy_mark_link :: "string \<Rightarrow> nav_link \<Rightarrow> nav_link" where
  "legacy_mark_link current link =
     (let l1 = link\<lparr>classList := classList_remove ''active'' (classList link)\<rparr>
      in if href l1 = Some (CHR ''#'' # current)
         then l1\<lparr>classList := classList_add ''active'' (classList l1)\<rparr>
         else l1)"

definition legacy_scroll_handler :: "section_el list \<Rightarrow> rat \<Rightarrow> nav_link list \<Rightarrow> nav_link list" where
  "legacy_scroll_handler secs scrollY links =
     map (legacy_mark_link (legacy_current secs scrollY)) links"

section \<open>The section observer's callback (script.js, lines 127 to 139)\<close>

text \<open>
  An entry delivered by the browser: the observed section, whether it intersects the
  observer's root, and its intersection ratio, a number between 0 and 1.
\<close>

record entry =
  target :: section_el
  isIntersecting :: bool
  intersectionRatio :: rat

text \<open>\<^verbatim>\<open>x || 0\<close> on a number.\<close>

definition or_zero :: "rat \<Rightarrow> rat" where
  "or_zero x = (if x = 0 then 0 else x)"

text \<open>The comparator \<^verbatim>\<open>(a, b) => (b.intersectionRatio || 0) - (a.intersectionRatio || 0)\<close>.\<close>

definition by_ratio_desc :: "entry \<Rightarrow> entry \<Rightarrow> rat" where
  "by_ratio_desc a b = or_zero (intersectionRatio b) - or_zero (intersectionRatio a)"

text \<open>
  \<^verbatim>\<open>Array.prototype.sort\<close> is a stable sort: \<^verbatim>\<open>a\<close> stays before \<^verbatim>\<open>b\<close> unless the
  comparator is positive on them. A stable insertion sort computes the same array.
\<close>

fun js_insert :: "('a \<Rightarrow> 'a \<Rightarrow> rat) \<Rightarrow> 'a \<Rightarrow> 'a list \<Rightarrow> 'a list" where
  "js_insert cmp x [] = [x]"
| "js_insert cmp x (y # ys) = (if cmp x y \<le> 0 then x # y # ys else y # js_insert cmp x ys)"

definition js_sort :: "('a \<Rightarrow> 'a \<Rightarrow> rat) \<Rightarrow> 'a list \<Rightarrow> 'a list" where
  "js_sort cmp xs = foldr (js_insert cmp) xs []"

text \<open>\<^verbatim>\<open>entries.filter(...).sort(...)[0]\<close>: \<^verbatim>\<open>undefined\<close> on the empty array.\<close>

definition most_visible :: "entry list \<Rightarrow> entry option" where
  "most_visible entries =
     (case js_sort by_ratio_desc (filter isIntersecting entries) of
        [] \<Rightarrow> None
      | visible # _ \<Rightarrow> Some visible)"

definition sectionObserver_callback :: "entry list \<Rightarrow> nav_link list \<Rightarrow> nav_link list" where
  "sectionObserver_callback entries links =
     (case most_visible entries of
        None \<Rightarrow> links
      | Some visible \<Rightarrow>
          map (\<lambda>link. link\<lparr>classList :=
                 classList_toggle ''active''
                   (href link = Some (CHR ''#'' # id_attr (target visible)))
                   (classList link)\<rparr>) links)"

text \<open>
  \<open>first_max k xs m\<close>: \<open>m\<close> is the first element of \<open>xs\<close> whose key is the greatest,
  so everything before it has a strictly smaller key.
\<close>

definition first_max :: "('a \<Rightarrow> rat) \<Rightarrow> 'a list \<Rightarrow> 'a \<Rightarrow> bool" where
  "first_max k xs m \<longleftrightarrow>
     (\<exists>pre post. xs = pre @ m # post
        \<and> (\<forall>a\<in>set pre. k a < k m) \<and> (\<forall>a\<in>set post. k a \<le> k m))"

section \<open>Geometry: which sections intersect, and by how much\<close>

text \<open>
  Neither script computes an intersection. The scroll handler compares offsets only, and
  script.js receives \<^verbatim>\<open>isIntersecting\<close> and \<^verbatim>\<open>intersectionRatio\<close> from the browser.
  To compare the handlers with the specification's words ("intersects the viewport",
  "fraction of a Section's area currently within the visible viewport") the geometry is
  written out here, in document coordinates, for a root interval from \<open>rt\<close> to \<open>rb\<close>.
  Sections span the full width, so areas are proportional to heights.
\<close>

definition overlap_height :: "rat \<Rightarrow> rat \<Rightarrow> section_el \<Rightarrow> rat" where
  "overlap_height rt rb s =
     min rb (of_int (offsetTop s + clientHeight s)) - max rt (of_int (offsetTop s))"

text \<open>The specification's viewport at scroll position \<open>scrollY\<close>, of height \<open>vh\<close>.\<close>

definition spec_intersects :: "int \<Rightarrow> rat \<Rightarrow> section_el \<Rightarrow> bool" where
  "spec_intersects vh scrollY s = (0 < overlap_height scrollY (scrollY + of_int vh) s)"

definition spec_intersection_ratio :: "int \<Rightarrow> rat \<Rightarrow> section_el \<Rightarrow> rat" where
  "spec_intersection_ratio vh scrollY s =
     (if spec_intersects vh scrollY s
      then overlap_height scrollY (scrollY + of_int vh) s / of_int (clientHeight s)
      else 0)"

text \<open>
  The browser's side of the section observer, for a notification that reports every
  observed section (the first one after \<^verbatim>\<open>observe\<close> always does), in the order of the
  \<^verbatim>\<open>observe\<close> calls, which is document order. The root is the viewport shrunk by the
  \<^verbatim>\<open>rootMargin\<close> of script.js line 144: \<^verbatim>\<open>max(getNavHeight(), 60)\<close> pixels at the top
  and 55 percent of the viewport height at the bottom. The ratio of a target without area
  is 1 when it touches the root. The observer is created with
  \<^verbatim>\<open>threshold: [0.35, 0.5, 0.65]\<close> (line 142), and browsers report a target as intersecting
  only when its ratio has reached the first threshold: \<^verbatim>\<open>isIntersecting\<close> is false while
  the ratio is below 0.35, also when the target overlaps the root.
\<close>

definition sectionObserver_thresholds :: "rat list" where
  "sectionObserver_thresholds = [35 / 100, 1 / 2, 65 / 100]"

text \<open>The index of the first threshold greater than the ratio (the thresholds are ascending).\<close>

definition thresholdIndex :: "rat list \<Rightarrow> rat \<Rightarrow> nat" where
  "thresholdIndex thresholds ratio = length (takeWhile (\<lambda>t. t \<le> ratio) thresholds)"

definition getNavHeight :: "int option \<Rightarrow> int" where
  "getNavHeight navbar_offsetHeight =
     (case navbar_offsetHeight of None \<Rightarrow> 76 | Some h \<Rightarrow> h)"

definition root_top :: "int \<Rightarrow> rat \<Rightarrow> rat" where
  "root_top navH scrollY = scrollY + of_int (max navH 60)"

definition root_bottom :: "int \<Rightarrow> rat \<Rightarrow> rat" where
  "root_bottom vh scrollY = scrollY + of_int vh - 55 / 100 * of_int vh"

definition observe_section :: "int \<Rightarrow> int \<Rightarrow> rat \<Rightarrow> section_el \<Rightarrow> entry" where
  "observe_section navH vh scrollY s =
     (let ov = overlap_height (root_top navH scrollY) (root_bottom vh scrollY) s;
          ratio = (if 0 < clientHeight s then max 0 ov / of_int (clientHeight s)
                   else if 0 \<le> ov then 1 else 0)
      in \<lparr>target = s,
          isIntersecting = (0 \<le> ov \<and> 0 < thresholdIndex sectionObserver_thresholds ratio),
          intersectionRatio = ratio\<rparr>)"

definition observe_all :: "int \<Rightarrow> int \<Rightarrow> rat \<Rightarrow> section_el list \<Rightarrow> entry list" where
  "observe_all navH vh scrollY secs = map (observe_section navH vh scrollY) secs"

section \<open>Scroll notifications and animation frames\<close>

datatype page_event = Scroll rat | AnimationFrame

subsection \<open>script.js, lines 92 to 113\<close>

text \<open>
  The state the throttled scroll code touches: the scroll position, the \<^verbatim>\<open>ticking\<close>
  flag, the \<^verbatim>\<open>onScroll\<close> callbacks handed to \<^verbatim>\<open>requestAnimationFrame\<close> and not yet run,
  and the class lists of \<^verbatim>\<open>#navbar\<close> and \<^verbatim>\<open>#scroll-top\<close> (\<open>None\<close> when the element is
  missing). \<open>onScroll_trace\<close> is bookkeeping for the proofs: the position each run of
  \<^verbatim>\<open>onScroll\<close> has read, oldest first.
\<close>

record script_state =
  window_scrollY :: rat
  ticking :: bool
  raf_queue :: nat
  navbar_classes :: "string set option"
  scrollTopBtn_classes :: "string set option"
  onScroll_trace :: "rat list"

text \<open>\<^verbatim>\<open>window.pageYOffset\<close> is an alias of \<^verbatim>\<open>window.scrollY\<close>, so \<^verbatim>\<open>y\<close> is the scroll position.\<close>

definition onScroll :: "script_state \<Rightarrow> script_state" where
  "onScroll st =
     (let y = (if window_scrollY st \<noteq> 0 then window_scrollY st else window_scrollY st)
      in st\<lparr>navbar_classes := map_option (classList_toggle ''scrolled'' (20 < y)) (navbar_classes st),
             scrollTopBtn_classes :=
               map_option (classList_toggle ''visible'' (500 < y)) (scrollTopBtn_classes st),
             ticking := False,
             onScroll_trace := onScroll_trace st @ [y]\<rparr>)"

definition scroll_listener :: "script_state \<Rightarrow> script_state" where
  "scroll_listener st =
     (if \<not> ticking st then st\<lparr>raf_queue := raf_queue st + 1, ticking := True\<rparr> else st)"

text \<open>
  A scroll notification moves the scroll position and runs the listener; an animation
  frame runs the callbacks queued before it.
\<close>

fun script_step :: "script_state \<Rightarrow> page_event \<Rightarrow> script_state" where
  "script_step st (Scroll y) = scroll_listener (st\<lparr>window_scrollY := y\<rparr>)"
| "script_step st AnimationFrame = (onScroll ^^ raf_queue st) (st\<lparr>raf_queue := 0\<rparr>)"

definition script_run :: "script_state \<Rightarrow> page_event list \<Rightarrow> script_state" where
  "script_run st evs = foldl script_step st evs"

subsection \<open>The unnamed file: a listener that recomputes on every notification\<close>

text \<open>
  The active-link listener is registered directly on \<^verbatim>\<open>scroll\<close> and schedules nothing.
  \<open>recompute_trace\<close> is bookkeeping for the proofs: the scroll position of each run.
\<close>

record legacy_state =
  legacy_links :: "nav_link list"
  recompute_trace :: "rat list"

fun legacy_step :: "section_el list \<Rightarrow> legacy_state \<Rightarrow> page_event \<Rightarrow> legacy_state" where
  "legacy_step secs st (Scroll y) =
     st\<lparr>legacy_links := legacy_scroll_handler secs y (legacy_links st),
        recompute_trace := recompute_trace st @ [y]\<rparr>"
| "legacy_step secs st AnimationFrame = st"

definition legacy_run :: "section_el list \<Rightarrow> legacy_state \<Rightarrow> page_event list \<Rightarrow> legacy_state" where
  "legacy_run secs st evs = foldl (legacy_step secs) st evs"

section \<open>The navbar shadow handler of the unnamed file (lines 16 to 23)\<close>

text \<open>
  \<^verbatim>\<open>document.getElementById("navbar")\<close> is \<^verbatim>\<open>null\<close> when the page has no such element,
  and both branches read \<^verbatim>\<open>navbar.style\<close>, which throws a TypeError on \<^verbatim>\<open>null\<close>.
\<close>

datatype js_error = TypeError

record navbar_el =
  boxShadow :: string

definition navbar_scroll_effect :: "navbar_el option \<Rightarrow> rat \<Rightarrow> js_error + navbar_el" where
  "navbar_scroll_effect navbar scrollY =
     (case navbar of
        None \<Rightarrow> Inl TypeError
      | Some nb \<Rightarrow>
          Inr (if 50 < scrollY then nb\<lparr>boxShadow := ''0 4px 20px rgba(0,0,0,0.15)''\<rparr>
               else nb\<lparr>boxShadow := ''0 2px 10px rgba(0,0,0,0.1)''\<rparr>))"

section \<open>What script.js does when it is loaded (lines 119 to 267)\<close>

text \<open>
  A JavaScript number is not a number, an infinity or a finite value. The conversion
  \<^verbatim>\<open>Number(s)\<close> belongs to the host and is a parameter of the page. A width is unset
  or a percentage.
\<close>

datatype js_number = NaN | Infinity | Neg_Infinity | Finite rat

datatype css_length = Unset | Percent rat

record skill_fill =
  data_progress :: "string option"
  width :: css_length

record stat_number =
  data_count :: "string option"
  data_suffix :: "string option"
  textContent :: string

datatype observer = SectionObserver | RevealObserver | SkillsObserver | StatsObserver

text \<open>
  The page as the script sees it: whether \<^verbatim>\<open>IntersectionObserver\<close> exists, the
  reduced-motion preference, the host's \<^verbatim>\<open>Number\<close>, the element sets it queries (\<open>skillsOverview\<close> holds the
  \<^verbatim>\<open>.skill-fill\<close> bars inside \<^verbatim>\<open>.skills-overview\<close>, \<open>None\<close> when that element is
  missing), and the observers created so far (none when the script starts).
\<close>

record page =
  hasIntersectionObserver :: bool
  prefersReducedMotion :: bool
  js_Number :: "string \<Rightarrow> js_number"
  navLinks :: "nav_link list"
  sections :: "section_el list"
  revealEls :: "string set list"
  skillsOverview :: "skill_fill list option"
  statEls :: "stat_number list"
  observing :: "observer set"

text \<open>\<^verbatim>\<open>el.getAttribute(name) || dflt\<close>: \<^verbatim>\<open>null\<close> and the empty string are falsy.\<close>

definition attr_or :: "string option \<Rightarrow> string \<Rightarrow> string" where
  "attr_or a dflt = (case a of None \<Rightarrow> dflt | Some s \<Rightarrow> if s = [] then dflt else s)"

text \<open>Lines 125 to 149: there is no \<^verbatim>\<open>else\<close> branch.\<close>

definition init_nav_highlight :: "page \<Rightarrow> page" where
  "init_nav_highlight pg =
     (if hasIntersectionObserver pg \<and> sections pg \<noteq> []
      then pg\<lparr>observing := insert SectionObserver (observing pg)\<rparr>
      else pg)"

text \<open>Lines 155 to 176.\<close>

definition init_reveal :: "page \<Rightarrow> page" where
  "init_reveal pg =
     (if prefersReducedMotion pg
      then pg\<lparr>revealEls := map (classList_add ''is-visible'') (revealEls pg)\<rparr>
      else if hasIntersectionObserver pg
      then pg\<lparr>observing := insert RevealObserver (observing pg)\<rparr>
      else pg\<lparr>revealEls := map (classList_add ''is-visible'') (revealEls pg)\<rparr>)"

text \<open>
  \<^verbatim>\<open>bar.style.width = `${p}%`\<close>: the browser takes the value only when it is a valid
  width, that is when \<^verbatim>\<open>p\<close> is finite and not negative; it ignores \<^verbatim>\<open>NaN%\<close>,
  \<^verbatim>\<open>Infinity%\<close> and a negative percentage, and the width stays what it was.
\<close>

definition assign_width_percent :: "js_number \<Rightarrow> skill_fill \<Rightarrow> skill_fill" where
  "assign_width_percent p bar =
     (case p of
        Finite r \<Rightarrow> if 0 \<le> r then bar\<lparr>width := Percent r\<rparr> else bar
      | _ \<Rightarrow> bar)"

text \<open>Lines 184 to 194; assigning the literal \<^verbatim>\<open>"0%"\<close> always takes effect.\<close>

definition animateSkillBars :: "(string \<Rightarrow> js_number) \<Rightarrow> bool \<Rightarrow> skill_fill list \<Rightarrow> skill_fill list" where
  "animateSkillBars to_number reduced bars =
     map (\<lambda>bar.
       let p = to_number (attr_or (data_progress bar) ''0'');
           bar1 = (if reduced then assign_width_percent p bar else bar\<lparr>width := Percent 0\<rparr>)
       in assign_width_percent p bar1) bars"

text \<open>Lines 196 to 213.\<close>

definition init_skills :: "page \<Rightarrow> page" where
  "init_skills pg =
     (case skillsOverview pg of
        None \<Rightarrow> pg
      | Some bars \<Rightarrow>
          if hasIntersectionObserver pg
          then pg\<lparr>observing := insert SkillsObserver (observing pg)\<rparr>
          else pg\<lparr>skillsOverview :=
                 Some (animateSkillBars (js_Number pg) (prefersReducedMotion pg) bars)\<rparr>)"

text \<open>Lines 262 to 266: the text is written only when \<^verbatim>\<open>data-count\<close> is a non-empty string.\<close>

definition stat_fallback :: "stat_number \<Rightarrow> stat_number" where
  "stat_fallback el =
     (case data_count el of
        None \<Rightarrow> el
      | Some e \<Rightarrow>
          if e = [] then el
          else el\<lparr>textContent := e @ attr_or (data_suffix el) []\<rparr>)"

text \<open>Lines 247 to 267.\<close>

definition init_stats :: "page \<Rightarrow> page" where
  "init_stats pg =
     (if statEls pg \<noteq> [] \<and> hasIntersectionObserver pg
      then pg\<lparr>observing := insert StatsObserver (observing pg)\<rparr>
      else pg\<lparr>statEls := map stat_fallback (statEls pg)\<rparr>)"

definition script_init :: "page \<Rightarrow> page" where
  "script_init pg = init_stats (init_skills (init_reveal (init_nav_highlight pg)))"

section \<open>The specification's scenario page\<close>

text \<open>
  Two sections, about (top 0, height 800) and work (top 800, height 1200), and one
  navigation link for each; the link to about starts out active.
\<close>

definition about_section :: section_el where
  "about_section = \<lparr>id_attr = ''about'', offsetTop = 0, clientHeight = 800\<rparr>"

definition work_section :: section_el where
  "work_section = \<lparr>id_attr = ''work'', offsetTop = 800, clientHeight = 1200\<rparr>"

definition about_link :: nav_link where
  "about_link = \<lparr>href = Some ''#about'', classList = {''nav-link'', ''active''}\<rparr>"

definition work_link :: nav_link where
  "work_link = \<lparr>href = Some ''#work'', classList = {''nav-link''}\<rparr>"

text \<open>
  A page for a browser without \<^verbatim>\<open>IntersectionObserver\<close>: the two sections and links, one
  reveal element, a skill bar with \<^verbatim>\<open>data-progress="80"\<close> and one with
  \<^verbatim>\<open>data-progress="abc"\<close>, a stat counter with \<^verbatim>\<open>data-count\<close> and one without.
  \<open>bare_page_Number\<close> gives the values of \<^verbatim>\<open>Number\<close> on the strings this page passes to
  it: 80 for \<^verbatim>\<open>"80"\<close>, and not a number for \<^verbatim>\<open>"abc"\<close>.
\<close>

definition bare_page_Number :: "string \<Rightarrow> js_number" where
  "bare_page_Number s = (if s = ''80'' then Finite 80 else NaN)"

definition bare_page :: page where
  "bare_page = \<lparr>hasIntersectionObserver = False, prefersReducedMotion = False,
     js_Number = bare_page_Number,
     navLinks = [about_link, work_link], sections = [about_section, work_section],
     revealEls = [{''reveal''}],
     skillsOverview = Some [\<lparr>data_progress = Some ''80'', width = Unset\<rparr>,
                            \<lparr>data_progress = Some ''abc'', width = Unset\<rparr>],
     statEls = [\<lparr>data_count = Some ''12'', data_suffix = Some ''+'', textContent = []\<rparr>,
                \<lparr>data_count = None, data_suffix = None, textContent = []\<rparr>],
     observing = {}\<rparr>"

text \<open>
  A page with short sections: intro (top 100, height 300) and more (top 500, height 500),
  and a page with two adjacent sections of height 300.
\<close>

definition intro_section :: section_el where
  "intro_section = \<lparr>id_attr = ''intro'', offsetTop = 100, clientHeight = 300\<rparr>"

definition more_section :: section_el where
  "more_section = \<lparr>id_attr = ''more'', offsetTop = 500, clientHeight = 500\<rparr>"

definition intro_link :: nav_link where
  "intro_link = \<lparr>href = Some ''#intro'', classList = {''nav-link''}\<rparr>"

definition more_link :: nav_link where
  "more_link = \<lparr>href = Some ''#more'', classList = {''nav-link'', ''active''}\<rparr>"

definition first_section :: section_el where
  "first_section = \<lparr>id_attr = ''first'', offsetTop = 0, clientHeight = 300\<rparr>"

definition second_section :: section_el where
  "second_section = \<lparr>id_attr = ''second'', offsetTop = 300, clientHeight = 300\<rparr>"

text \<open>A section without height, above the top of the page.\<close>

definition flat_section :: section_el where
  "flat_section = \<lparr>id_attr = ''flat'', offsetTop = - 5, clientHeight = 0\<rparr>"

text \<open>A link whose href is \<^verbatim>\<open>#\<close> alone, as a link back to the top of the page has.\<close>

definition top_link :: nav_link where
  "top_link = \<lparr>href = Some ''#'', classList = {''nav-link''}\<rparr>"

text \<open>The scroll state of script.js between two frames, nothing scheduled.\<close>

definition idle_script :: script_state where
  "idle_script = \<lparr>window_scrollY = 0, ticking = False, raf_queue = 0,
     navbar_classes = Some {''navbar''}, scrollTopBtn_classes = None, onScroll_trace = []\<rparr>"

section \<open>The stable sort puts the first greatest element in front\<close>

lemma js_insert_not_Nil: "js_insert cmp x ys \<noteq> []"
  by (cases ys) auto

lemma js_sort_Cons: "js_sort cmp (x # xs) = js_insert cmp x (js_sort cmp xs)"
  by (simp add: js_sort_def)

lemma js_sort_Nil_iff: "js_sort cmp xs = [] \<longleftrightarrow> xs = []"
  by (cases xs) (simp_all add: js_sort_Cons js_insert_not_Nil, simp add: js_sort_def)

lemma hd_js_insert:
  "hd (js_insert cmp x ys) = (if ys = [] \<or> cmp x (hd ys) \<le> 0 then x else hd ys)"
  by (cases ys) auto

lemma first_max_single: "first_max k [x] x"
  unfolding first_max_def by (rule exI [of _ "[]"], rule exI [of _ "[]"]) simp

lemma first_max_le: "first_max k xs m \<Longrightarrow> a \<in> set xs \<Longrightarrow> k a \<le> k m"
  unfolding first_max_def by (auto simp: less_imp_le)

lemma first_max_new: "first_max k xs m \<Longrightarrow> k m \<le> k x \<Longrightarrow> first_max k (x # xs) x"
proof -
  assume a: "first_max k xs m" "k m \<le> k x"
  have "\<forall>a\<in>set xs. k a \<le> k x"
    using first_max_le [OF a(1)] a(2) by (meson order_trans)
  then show ?thesis
    unfolding first_max_def by (intro exI [of _ "[]"] exI [of _ xs]) simp
qed

lemma first_max_keep: "first_max k xs m \<Longrightarrow> k x < k m \<Longrightarrow> first_max k (x # xs) m"
proof -
  assume a: "first_max k xs m" "k x < k m"
  then obtain pre post where s: "xs = pre @ m # post"
    "\<forall>a\<in>set pre. k a < k m" "\<forall>a\<in>set post. k a \<le> k m"
    unfolding first_max_def by blast
  have "x # xs = (x # pre) @ m # post" using s(1) by simp
  moreover have "\<forall>a\<in>set (x # pre). k a < k m" using s(2) a(2) by simp
  ultimately show ?thesis unfolding first_max_def using s(3) by blast
qed

lemma hd_js_sort_first_max:
  assumes "\<And>a b. cmp a b = k b - k a" and "xs \<noteq> []"
  shows "first_max k xs (hd (js_sort cmp xs))"
  using assms(2)
proof (induction xs)
  case Nil
  then show ?case by simp
next
  case (Cons x xs)
  show ?case
  proof (cases "xs = []")
    case True
    then show ?thesis by (simp add: js_sort_def first_max_single)
  next
    case False
    let ?m = "hd (js_sort cmp xs)"
    have fm: "first_max k xs ?m" using Cons.IH [OF False] .
    have ne: "js_sort cmp xs \<noteq> []" using False by (simp add: js_sort_Nil_iff)
    show ?thesis
    proof (cases "k ?m \<le> k x")
      case True
      then have h: "hd (js_sort cmp (x # xs)) = x"
        by (simp add: js_sort_Cons hd_js_insert assms(1))
      show ?thesis unfolding h using fm True by (rule first_max_new)
    next
      case False
      then have h: "hd (js_sort cmp (x # xs)) = ?m"
        using ne by (simp add: js_sort_Cons hd_js_insert assms(1))
      show ?thesis unfolding h using fm False by (intro first_max_keep) auto
    qed
  qed
qed

section \<open>What the two handlers select and mark\<close>

lemma legacy_mark_link_active:
  "is_active (legacy_mark_link current link) \<longleftrightarrow> href link = Some (CHR ''#'' # current)"
  by (simp add: legacy_mark_link_def is_active_def classList_add_def classList_remove_def Let_def)

lemma legacy_mark_link_href: "href (legacy_mark_link current link) = href link"
  by (simp add: legacy_mark_link_def Let_def)

lemma foldl_last_pass:
  "foldl (\<lambda>c s. if P s then f s else c) c0 xs =
     (if filter P xs = [] then c0 else f (last (filter P xs)))"
  by (induction xs arbitrary: c0) auto

lemma legacy_current_last:
  "legacy_current secs y =
     (case filter (\<lambda>s. of_int (offsetTop s - 200) \<le> y) secs of
        [] \<Rightarrow> []
      | p # ps \<Rightarrow> id_attr (last (p # ps)))"
  unfolding legacy_current_def foldl_last_pass by (simp split: list.splits)

lemma most_visible_eq:
  "most_visible entries =
     (if filter isIntersecting entries = [] then None
      else Some (hd (js_sort by_ratio_desc (filter isIntersecting entries))))"
proof (cases "js_sort by_ratio_desc (filter isIntersecting entries)")
  case Nil
  then have "filter isIntersecting entries = []" by (simp add: js_sort_Nil_iff)
  with Nil show ?thesis by (simp add: most_visible_def)
next
  case (Cons e es)
  then have "filter isIntersecting entries \<noteq> []"
    using js_sort_Nil_iff [of by_ratio_desc "filter isIntersecting entries"] by simp
  with Cons show ?thesis by (simp add: most_visible_def)
qed

lemma most_visible_first_max:
  assumes "filter isIntersecting entries \<noteq> []"
  shows "\<exists>e. most_visible entries = Some e
           \<and> first_max intersectionRatio (filter isIntersecting entries) e"
proof -
  have "first_max intersectionRatio (filter isIntersecting entries)
          (hd (js_sort by_ratio_desc (filter isIntersecting entries)))"
    using assms by (intro hd_js_sort_first_max) (simp_all add: by_ratio_desc_def or_zero_def)
  then show ?thesis using assms by (simp add: most_visible_eq)
qed

lemma most_visible_None: "most_visible entries = None \<longleftrightarrow> filter isIntersecting entries = []"
  by (simp add: most_visible_eq)

lemma filter_href_le1:
  "distinct (map href links) \<Longrightarrow> length (filter (\<lambda>l. href l = h) links) \<le> 1"
proof (induction links)
  case Nil
  then show ?case by simp
next
  case (Cons l links)
  show ?case
  proof (cases "href l = h")
    case True
    then have "filter (\<lambda>l. href l = h) links = []"
      using Cons.prems by (force simp: filter_empty_conv image_iff)
    with True show ?thesis by simp
  next
    case False
    then show ?thesis using Cons by simp
  qed
qed

lemma toggle_active:
  "is_active (link\<lparr>classList := classList_toggle ''active'' b (classList link)\<rparr>) \<longleftrightarrow> b"
  by (simp add: is_active_def classList_toggle_def classList_add_def classList_remove_def)

lemma legacy_mark_link_eq_toggle:
  "legacy_mark_link current link =
     link\<lparr>classList := classList_toggle ''active'' (href link = Some (CHR ''#'' # current))
        (classList link)\<rparr>"
  by (auto simp: legacy_mark_link_def Let_def classList_toggle_def classList_add_def
      classList_remove_def)

lemma legacy_handler_active:
  "filter is_active (legacy_scroll_handler secs y links) =
     map (legacy_mark_link (legacy_current secs y))
       (filter (\<lambda>l. href l = Some (CHR ''#'' # legacy_current secs y)) links)"
  by (simp add: legacy_scroll_handler_def filter_map o_def legacy_mark_link_active)

lemma legacy_handler_at_most_one:
  "distinct (map href links) \<Longrightarrow> at_most_one_active (legacy_scroll_handler secs y links)"
  using filter_href_le1 [of links "Some (CHR ''#'' # legacy_current secs y)"]
  by (simp add: at_most_one_active_def legacy_handler_active)

lemma callback_Some:
  "most_visible entries = Some e \<Longrightarrow>
   sectionObserver_callback entries links =
     map (legacy_mark_link (id_attr (target e))) links"
  by (simp add: sectionObserver_callback_def legacy_mark_link_eq_toggle)

lemma callback_None:
  "most_visible entries = None \<Longrightarrow> sectionObserver_callback entries links = links"
  by (simp add: sectionObserver_callback_def)

lemma marked_at_most_one:
  "distinct (map href links) \<Longrightarrow> at_most_one_active (map (legacy_mark_link c) links)"
  using filter_href_le1 [of links "Some (CHR ''#'' # c)"]
  by (simp add: at_most_one_active_def filter_map o_def legacy_mark_link_active)

lemma marked_active_href:
  "l \<in> set (map (legacy_mark_link c) links) \<Longrightarrow> is_active l \<Longrightarrow> href l = Some (CHR ''#'' # c)"
  by (auto simp: legacy_mark_link_active legacy_mark_link_href)

lemma legacy_current_append_pass:
  "of_int (offsetTop s - 200) \<le> y \<Longrightarrow> legacy_current (secs @ [s]) y = id_attr s"
  by (simp add: legacy_current_def)

lemma legacy_current_height_irrelevant:
  "legacy_current (map (\<lambda>s. s\<lparr>clientHeight := h s\<rparr>) secs) y = legacy_current secs y"
proof -
  have "foldl (\<lambda>current s. if of_int (offsetTop s - 200) \<le> y then id_attr s else current) c
          (map (\<lambda>s. s\<lparr>clientHeight := h s\<rparr>) secs)
        = foldl (\<lambda>current s. if of_int (offsetTop s - 200) \<le> y then id_attr s else current) c secs"
    for c
    by (induction secs arbitrary: c) simp_all
  then show ?thesis by (simp add: legacy_current_def)
qed

lemma init_nav_links: "navLinks (script_init pg) = navLinks pg"
  by (simp add: script_init_def init_stats_def init_skills_def init_reveal_def
      init_nav_highlight_def split: option.splits)

lemma init_no_sections:
  "sections pg = [] \<Longrightarrow> SectionObserver \<in> observing (script_init pg) \<longleftrightarrow> SectionObserver \<in> observing pg"
  by (simp add: script_init_def init_stats_def init_skills_def init_reveal_def
      init_nav_highlight_def split: option.splits)


lemma js_insert_map:
  assumes "\<And>a b. cmp (g a) (g b) = cmp a b"
  shows "js_insert cmp (g x) (map g ys) = map g (js_insert cmp x ys)"
  by (induction ys) (simp_all add: assms)

lemma js_sort_map:
  assumes "\<And>a b. cmp (g a) (g b) = cmp a b"
  shows "js_sort cmp (map g xs) = map g (js_sort cmp xs)"
proof (induction xs)
  case Nil
  show ?case by (simp add: js_sort_def)
next
  case (Cons x xs)
  have "js_insert cmp (g x) (map g (js_sort cmp xs)) = map g (js_insert cmp x (js_sort cmp xs))"
    using assms by (rule js_insert_map)
  with Cons show ?case by (simp add: js_sort_Cons)
qed

lemma most_visible_retarget:
  "most_visible (map (\<lambda>e. e\<lparr>target := f e\<rparr>) entries)
     = map_option (\<lambda>e. e\<lparr>target := f e\<rparr>) (most_visible entries)"
proof -
  let ?g = "\<lambda>e. e\<lparr>target := f e\<rparr>"
  have f: "filter isIntersecting (map ?g entries) = map ?g (filter isIntersecting entries)"
    by (simp add: filter_map o_def)
  have s: "js_sort by_ratio_desc (map ?g xs) = map ?g (js_sort by_ratio_desc xs)" for xs
    by (rule js_sort_map) (simp add: by_ratio_desc_def)
  show ?thesis
    unfolding most_visible_def f s by (simp split: list.splits)
qed

lemma first_max_mem: "first_max k xs m \<Longrightarrow> m \<in> set xs"
  unfolding first_max_def by auto

lemma most_visible_strict_max:
  assumes "e \<in> set entries" "isIntersecting e"
    and "\<forall>e'\<in>set entries. isIntersecting e' \<and> e' \<noteq> e \<longrightarrow> intersectionRatio e' < intersectionRatio e"
  shows "most_visible entries = Some e"
proof -
  have ne: "filter isIntersecting entries \<noteq> []"
    using assms(1,2) by (auto simp: filter_empty_conv)
  then obtain m where m: "most_visible entries = Some m"
    "first_max intersectionRatio (filter isIntersecting entries) m"
    using most_visible_first_max by blast
  have mm: "m \<in> set (filter isIntersecting entries)" using m(2) by (rule first_max_mem)
  have "intersectionRatio e \<le> intersectionRatio m"
    using first_max_le [OF m(2), of e] assms(1,2) by simp
  then have "m = e" using assms(3) mm by force
  with m(1) show ?thesis by simp
qed

lemma most_visible_mem:
  "most_visible entries = Some e \<Longrightarrow> e \<in> set entries \<and> isIntersecting e"
proof -
  assume a: "most_visible entries = Some e"
  then have ne: "filter isIntersecting entries \<noteq> []" by (auto simp: most_visible_eq split: if_splits)
  then obtain m where m: "most_visible entries = Some m"
    "first_max intersectionRatio (filter isIntersecting entries) m"
    using most_visible_first_max by blast
  then have "m \<in> set (filter isIntersecting entries)" using first_max_mem by fast
  with a m(1) show ?thesis by simp
qed

lemma legacy_current_selected:
  "filter (\<lambda>s. of_int (offsetTop s - 200) \<le> y) secs \<noteq> [] \<Longrightarrow>
   legacy_current secs y = id_attr (last (filter (\<lambda>s. of_int (offsetTop s - 200) \<le> y) secs))"
  by (simp add: legacy_current_last split: list.splits)

lemma legacy_current_none:
  "filter (\<lambda>s. of_int (offsetTop s - 200) \<le> y) secs = [] \<Longrightarrow> legacy_current secs y = []"
  by (simp add: legacy_current_last)

lemma marked_active_iff:
  "l \<in> set (map (legacy_mark_link c) links) \<Longrightarrow> is_active l \<longleftrightarrow> href l = Some (CHR ''#'' # c)"
  by (auto simp: legacy_mark_link_active legacy_mark_link_href)

section \<open>What the observer reports\<close>

lemma observe_section_target: "target (observe_section navH vh y s) = s"
  by (simp add: observe_section_def Let_def)

lemma thresholdIndex_below:
  "ratio < 35 / 100 \<Longrightarrow> thresholdIndex sectionObserver_thresholds ratio = 0"
  by (simp add: thresholdIndex_def sectionObserver_thresholds_def)

lemma thresholdIndex_reached:
  "35 / 100 \<le> ratio \<Longrightarrow> 0 < thresholdIndex sectionObserver_thresholds ratio"
  by (simp add: thresholdIndex_def sectionObserver_thresholds_def)

lemma observe_section_below:
  assumes "0 < clientHeight t"
    and "overlap_height (root_top navH y) (root_bottom vh y) t < 35 / 100 * of_int (clientHeight t)"
  shows "\<not> isIntersecting (observe_section navH vh y t)"
proof -
  let ?h = "of_int (clientHeight t) :: rat"
  let ?ov = "overlap_height (root_top navH y) (root_bottom vh y) t"
  have h: "0 < ?h" using assms(1) by simp
  then have "max 0 ?ov < 35 / 100 * ?h" using assms(2) by simp
  then have "max 0 ?ov / ?h < 35 / 100" using h by (simp add: pos_divide_less_eq)
  then have "thresholdIndex sectionObserver_thresholds (max 0 ?ov / ?h) = 0"
    by (rule thresholdIndex_below)
  then show ?thesis using assms(1) by (simp add: observe_section_def Let_def)
qed

lemma observe_section_reached:
  assumes "0 < clientHeight s"
    and "35 / 100 * of_int (clientHeight s) \<le> overlap_height (root_top navH y) (root_bottom vh y) s"
  shows "isIntersecting (observe_section navH vh y s)"
proof -
  let ?h = "of_int (clientHeight s) :: rat"
  let ?ov = "overlap_height (root_top navH y) (root_bottom vh y) s"
  have h: "0 < ?h" using assms(1) by simp
  then have "0 < 35 / 100 * ?h" by simp
  then have pos: "0 \<le> ?ov" using assms(2) by linarith
  have "35 / 100 * ?h \<le> max 0 ?ov" using assms(2) by simp
  then have "35 / 100 \<le> max 0 ?ov / ?h" using h by (simp add: pos_le_divide_eq)
  then have "0 < thresholdIndex sectionObserver_thresholds (max 0 ?ov / ?h)"
    by (rule thresholdIndex_reached)
  then show ?thesis using assms(1) pos by (simp add: observe_section_def Let_def)
qed

lemma observe_all_none:
  assumes "\<forall>t\<in>set secs. 0 < clientHeight t
     \<and> overlap_height (root_top navH y) (root_bottom vh y) t < 35 / 100 * of_int (clientHeight t)"
  shows "filter isIntersecting (observe_all navH vh y secs) = []"
  using assms by (auto simp: observe_all_def filter_empty_conv observe_section_below)

lemma observe_all_single:
  assumes "0 < clientHeight s"
    and "35 / 100 * of_int (clientHeight s) \<le> overlap_height (root_top navH y) (root_bottom vh y) s"
    and "\<forall>t\<in>set (pre @ post). 0 < clientHeight t
     \<and> overlap_height (root_top navH y) (root_bottom vh y) t < 35 / 100 * of_int (clientHeight t)"
  shows "filter isIntersecting (observe_all navH vh y (pre @ s # post)) = [observe_section navH vh y s]"
proof -
  have a: "filter isIntersecting (observe_all navH vh y pre) = []"
    using assms(3) by (intro observe_all_none) simp
  have b: "filter isIntersecting (observe_all navH vh y post) = []"
    using assms(3) by (intro observe_all_none) simp
  have c: "isIntersecting (observe_section navH vh y s)"
    using assms(1,2) by (rule observe_section_reached)
  have "observe_all navH vh y (pre @ s # post)
      = observe_all navH vh y pre @ observe_section navH vh y s # observe_all navH vh y post"
    by (simp add: observe_all_def)
  then show ?thesis using a b c by simp
qed

lemma most_visible_single:
  "filter isIntersecting entries = [e] \<Longrightarrow> most_visible entries = Some e"
  by (simp add: most_visible_def js_sort_def)

lemma legacy_current_split:
  assumes "of_int (offsetTop s - 200) \<le> y"
    and "\<forall>t\<in>set post. y < of_int (offsetTop t - 200)"
  shows "legacy_current (pre @ s # post) y = id_attr s"
proof -
  have "filter (\<lambda>t. of_int (offsetTop t - 200) \<le> y) post = []"
    using assms(2) by (auto simp: filter_empty_conv)
  then have f: "filter (\<lambda>t. of_int (offsetTop t - 200) \<le> y) (pre @ s # post)
      = filter (\<lambda>t. of_int (offsetTop t - 200) \<le> y) pre @ [s]"
    using assms(1) by simp
  have "legacy_current (pre @ s # post) y
      = id_attr (last (filter (\<lambda>t. of_int (offsetTop t - 200) \<le> y) (pre @ s # post)))"
    by (rule legacy_current_selected) (simp only: f, simp)
  then show ?thesis by (simp only: f last_snoc)
qed

lemma legacy_handler_marking:
  "map is_active (legacy_scroll_handler secs y links)
     = map (\<lambda>l. href l = Some (CHR ''#'' # legacy_current secs y)) links"
  by (simp add: legacy_scroll_handler_def legacy_mark_link_active)

section \<open>Scroll notifications within one frame\<close>

lemma script_run_Nil: "script_run st [] = st"
  by (simp add: script_run_def)

lemma script_run_Cons: "script_run st (ev # evs) = script_run (script_step st ev) evs"
  by (simp add: script_run_def)

lemma script_run_snoc: "script_run st (evs @ [ev]) = script_step (script_run st evs) ev"
  by (simp add: script_run_def)

lemma scrolls_while_ticking:
  "ticking st \<Longrightarrow> script_run st (map Scroll ys) =
     (if ys = [] then st else st\<lparr>window_scrollY := last ys\<rparr>)"
proof (induction ys arbitrary: st)
  case Nil
  then show ?case by (simp add: script_run_Nil)
next
  case (Cons y ys)
  have s: "script_step st (Scroll y) = st\<lparr>window_scrollY := y\<rparr>"
    using Cons.prems by (simp add: scroll_listener_def)
  have t: "ticking (st\<lparr>window_scrollY := y\<rparr>)" using Cons.prems by simp
  have "script_run st (map Scroll (y # ys)) = script_run (st\<lparr>window_scrollY := y\<rparr>) (map Scroll ys)"
    by (simp only: list.map script_run_Cons s)
  also have "\<dots> = (if ys = [] then st\<lparr>window_scrollY := y\<rparr>
                    else st\<lparr>window_scrollY := y\<rparr>\<lparr>window_scrollY := last ys\<rparr>)"
    by (rule Cons.IH [OF t])
  finally show ?case by simp
qed

lemma scrolls_in_one_frame:
  assumes "\<not> ticking st" and "ys \<noteq> []"
  shows "script_run st (map Scroll ys) =
           st\<lparr>window_scrollY := last ys, raf_queue := raf_queue st + 1, ticking := True\<rparr>"
proof -
  obtain y ys' where ys: "ys = y # ys'" using assms(2) by (cases ys) auto
  have s1: "script_step st (Scroll y) = st\<lparr>window_scrollY := y, raf_queue := raf_queue st + 1, ticking := True\<rparr>"
    using assms(1) by (simp add: scroll_listener_def)
  let ?st1 = "st\<lparr>window_scrollY := y, raf_queue := raf_queue st + 1, ticking := True\<rparr>"
  have "script_run st (map Scroll ys) = script_run ?st1 (map Scroll ys')"
    unfolding ys by (simp only: list.map script_run_Cons s1)
  also have "\<dots> = (if ys' = [] then ?st1 else ?st1\<lparr>window_scrollY := last ys'\<rparr>)"
    by (rule scrolls_while_ticking) simp
  finally show ?thesis unfolding ys by simp
qed

lemma legacy_run_trace:
  "recompute_trace (legacy_run secs st (map Scroll ys)) = recompute_trace st @ ys"
  unfolding legacy_run_def by (induction ys arbitrary: st) simp_all

section \<open>Evaluating the handlers on concrete pages\<close>

lemmas scenario_defs = about_section_def work_section_def about_link_def work_link_def
  top_link_def flat_section_def

lemmas handler_defs = legacy_scroll_handler_def legacy_current_def legacy_mark_link_def
  sectionObserver_callback_def most_visible_def js_sort_def by_ratio_desc_def or_zero_def
  is_active_def at_most_one_active_def classList_add_def classList_remove_def
  classList_toggle_def Let_def

lemmas page_defs = intro_section_def more_section_def intro_link_def more_link_def
  first_section_def second_section_def

lemmas observer_defs = getNavHeight_def observe_all_def observe_section_def overlap_height_def
  root_top_def root_bottom_def thresholdIndex_def sectionObserver_thresholds_def

section \<open>At most one active link\<close>

text \<open>
  Claim C1, as the code has it. Let the hrefs of the navigation links be pairwise distinct.
  After a run of the scroll handler at most one link is active. When the handler selects
  a section (some section has its top at most 200 below the scroll position; it selects
  the last such section), the active links are exactly those whose href is \<^verbatim>\<open>#\<close>
  followed by that section's id. When it selects none, the active links are exactly those
  whose href is \<^verbatim>\<open>#\<close> alone. When the observer callback selects an entry, that entry
  is an intersecting one of those delivered, at most one link is active afterwards and
  the active links are exactly those whose href is \<^verbatim>\<open>#\<close> followed by the id of the
  entry's target. When it selects nothing, it leaves every link as it was.
\<close>

theorem nav_marking_invariant:
  assumes "distinct (map href links)"
  shows "at_most_one_active (legacy_scroll_handler secs y links)
    \<and> (filter (\<lambda>s. of_int (offsetTop s - 200) \<le> y) secs \<noteq> [] \<longrightarrow>
         (\<forall>l\<in>set (legacy_scroll_handler secs y links).
            is_active l \<longleftrightarrow>
            href l = Some (CHR ''#'' #
              id_attr (last (filter (\<lambda>s. of_int (offsetTop s - 200) \<le> y) secs)))))
    \<and> (filter (\<lambda>s. of_int (offsetTop s - 200) \<le> y) secs = [] \<longrightarrow>
         (\<forall>l\<in>set (legacy_scroll_handler secs y links). is_active l \<longleftrightarrow> href l = Some ''#''))
    \<and> (\<forall>e. most_visible entries = Some e \<longrightarrow>
          e \<in> set entries \<and> isIntersecting e
          \<and> at_most_one_active (sectionObserver_callback entries links)
          \<and> (\<forall>l\<in>set (sectionObserver_callback entries links).
                is_active l \<longleftrightarrow> href l = Some (CHR ''#'' # id_attr (target e))))
    \<and> (most_visible entries = None \<longrightarrow> sectionObserver_callback entries links = links)"
proof (intro conjI allI impI ballI)
  show "at_most_one_active (legacy_scroll_handler secs y links)"
    using assms by (rule legacy_handler_at_most_one)
next
  fix l
  assume "filter (\<lambda>s. of_int (offsetTop s - 200) \<le> y) secs \<noteq> []"
    and "l \<in> set (legacy_scroll_handler secs y links)"
  then show "is_active l \<longleftrightarrow>
      href l = Some (CHR ''#'' # id_attr (last (filter (\<lambda>s. of_int (offsetTop s - 200) \<le> y) secs)))"
    using marked_active_iff [of l "legacy_current secs y" links]
    by (simp add: legacy_scroll_handler_def legacy_current_selected)
next
  fix l
  assume "filter (\<lambda>s. of_int (offsetTop s - 200) \<le> y) secs = []"
    and "l \<in> set (legacy_scroll_handler secs y links)"
  then show "is_active l \<longleftrightarrow> href l = Some ''#''"
    using marked_active_iff [of l "legacy_current secs y" links]
    by (simp add: legacy_scroll_handler_def legacy_current_none)
next
  fix e assume "most_visible entries = Some e"
  then show "e \<in> set entries" "isIntersecting e" by (simp_all add: most_visible_mem)
next
  fix e assume "most_visible entries = Some e"
  then show "at_most_one_active (sectionObserver_callback entries links)"
    using assms by (simp add: callback_Some marked_at_most_one)
next
  fix e l assume "most_visible entries = Some e"
    "l \<in> set (sectionObserver_callback entries links)"
  then show "is_active l \<longleftrightarrow> href l = Some (CHR ''#'' # id_attr (target e))"
    by (simp only: callback_Some) (rule marked_active_iff)
next
  assume "most_visible entries = None"
  then show "sectionObserver_callback entries links = links" by (rule callback_None)
qed

theorem nav_marking_invariant_witness:
  "distinct (map href [top_link, about_link, work_link])
   \<and> map is_active (legacy_scroll_handler [about_section, work_section] 900
        [top_link, about_link, work_link]) = [False, False, True]
   \<and> map is_active (sectionObserver_callback
         [\<lparr>target = about_section, isIntersecting = True, intersectionRatio = 1 / 4\<rparr>,
          \<lparr>target = work_section, isIntersecting = True, intersectionRatio = 1 / 2\<rparr>]
         [top_link, about_link, work_link]) = [False, False, True]
   \<and> sectionObserver_callback
         [\<lparr>target = about_section, isIntersecting = False, intersectionRatio = 0\<rparr>]
         [top_link, about_link, work_link] = [top_link, about_link, work_link]"
  using nav_marking_invariant
    [where links = "[top_link, about_link, work_link]" and y = 900
       and secs = "[about_section, work_section]"
       and entries =
         "[\<lparr>target = about_section, isIntersecting = True, intersectionRatio = 1 / 4\<rparr>,
           \<lparr>target = work_section, isIntersecting = True, intersectionRatio = 1 / 2\<rparr>]"]
    nav_marking_invariant
    [where links = "[top_link, about_link, work_link]" and y = 900
       and secs = "[about_section, work_section]"
       and entries = "[\<lparr>target = about_section, isIntersecting = False, intersectionRatio = 0\<rparr>]"]
  by (simp add: scenario_defs handler_defs)

text \<open>
  The claim as stated fails on the scroll handler: at scroll position 0 no section of the
  page has its top at most 200 below, so no section is selected, and the link whose href
  is \<^verbatim>\<open>#\<close> becomes active although its target is the id of no section.
\<close>

theorem top_link_active_without_section:
  "distinct (map href [top_link, work_link])
   \<and> filter (\<lambda>s. of_int (offsetTop s - 200) \<le> (0::rat)) [work_section] = []
   \<and> legacy_current [work_section] 0 = []
   \<and> map is_active (legacy_scroll_handler [work_section] 0 [top_link, work_link]) = [True, False]
   \<and> \<not> (\<exists>s\<in>set [work_section]. href top_link = Some (CHR ''#'' # id_attr s))"
  by (simp add: scenario_defs handler_defs)

section \<open>Scenario: two sections, scroll position 900\<close>

text \<open>
  Claim C4. Sections about (top 0, height 800) and work (top 800, height 1200), scroll
  position 900: after the scroll handler has run, whatever the links were before, every
  link whose href is \<^verbatim>\<open>#work\<close> is active and every link whose href is \<^verbatim>\<open>#about\<close> is
  not. The handler never reads the viewport height (600 in the scenario).
\<close>

theorem scenario_work_active:
  "l \<in> set (legacy_scroll_handler
       [\<lparr>id_attr = ''about'', offsetTop = 0, clientHeight = 800\<rparr>,
        \<lparr>id_attr = ''work'', offsetTop = 800, clientHeight = 1200\<rparr>] 900 links) \<Longrightarrow>
   (href l = Some ''#work'' \<longrightarrow> is_active l) \<and> (href l = Some ''#about'' \<longrightarrow> \<not> is_active l)"
  by (auto simp: legacy_scroll_handler_def legacy_current_def legacy_mark_link_active
      legacy_mark_link_href)

theorem scenario_work_active_witness:
  "map is_active (legacy_scroll_handler
       [\<lparr>id_attr = ''about'', offsetTop = 0, clientHeight = 800\<rparr>,
        \<lparr>id_attr = ''work'', offsetTop = 800, clientHeight = 1200\<rparr>] 900
       [\<lparr>href = Some ''#about'', classList = {''nav-link'', ''active''}\<rparr>,
        \<lparr>href = Some ''#work'', classList = {''nav-link''}\<rparr>]) = [False, True]"
  using scenario_work_active
    [of "\<lparr>href = Some ''#about'', classList = {''nav-link''}\<rparr>"
        "[\<lparr>href = Some ''#about'', classList = {''nav-link'', ''active''}\<rparr>,
          \<lparr>href = Some ''#work'', classList = {''nav-link''}\<rparr>]"]
    scenario_work_active
    [of "\<lparr>href = Some ''#work'', classList = {''nav-link'', ''active''}\<rparr>"
        "[\<lparr>href = Some ''#about'', classList = {''nav-link'', ''active''}\<rparr>,
          \<lparr>href = Some ''#work'', classList = {''nav-link''}\<rparr>]"]
  by (simp add: legacy_scroll_handler_def legacy_current_def legacy_mark_link_def
      is_active_def classList_add_def classList_remove_def Let_def)

section \<open>Which section is selected\<close>

text \<open>
  Claim C2, as the code has it. The observer callback of script.js selects among the
  entries the browser delivered to it: when one of them is intersecting, it selects the
  first intersecting entry with the greatest ratio, so on equal ratios the one delivered
  first; when none is, it selects nothing. The scroll handler of the unnamed file
  computes no ratio: it selects the last section in document order whose top is at most
  200 below the scroll position, and the empty string when there is none.
\<close>

theorem selection_rules:
  "(filter isIntersecting entries \<noteq> [] \<longrightarrow>
      (\<exists>e. most_visible entries = Some e
           \<and> first_max intersectionRatio (filter isIntersecting entries) e))
   \<and> (filter isIntersecting entries = [] \<longrightarrow> most_visible entries = None)
   \<and> legacy_current secs y =
       (case filter (\<lambda>s. of_int (offsetTop s - 200) \<le> y) secs of
          [] \<Rightarrow> []
        | p # ps \<Rightarrow> id_attr (last (p # ps)))"
  using most_visible_first_max [of entries] legacy_current_last [of secs y]
  by (simp add: most_visible_None)

theorem selection_rules_witness:
  "most_visible
     [\<lparr>target = about_section, isIntersecting = True, intersectionRatio = 1 / 2\<rparr>,
      \<lparr>target = work_section, isIntersecting = True, intersectionRatio = 1 / 2\<rparr>]
   = Some \<lparr>target = about_section, isIntersecting = True, intersectionRatio = 1 / 2\<rparr>
   \<and> legacy_current [about_section, work_section] 900 = ''work''"
  using selection_rules
    [of "[\<lparr>target = about_section, isIntersecting = True, intersectionRatio = 1 / 2\<rparr>,
          \<lparr>target = work_section, isIntersecting = True, intersectionRatio = 1 / 2\<rparr>]"
        "[about_section, work_section]" 900]
  by (simp add: scenario_defs handler_defs)

text \<open>
  The claim as stated fails on the scroll handler. With a viewport of height 200 at
  scroll position 650 both scenario sections intersect the viewport and about has the
  greater ratio, yet the handler selects work. With two sections of height 100 at the top
  of a viewport of height 600 both are fully visible (equal ratios), yet the handler
  selects the second.
\<close>

theorem scroll_handler_ignores_ratio:
  "spec_intersection_ratio 200 650 work_section < spec_intersection_ratio 200 650 about_section
   \<and> spec_intersects 200 650 about_section \<and> spec_intersects 200 650 work_section
   \<and> legacy_current [about_section, work_section] 650 = ''work''
   \<and> spec_intersects 600 0 \<lparr>id_attr = ''a'', offsetTop = 0, clientHeight = 100\<rparr>
   \<and> spec_intersects 600 0 \<lparr>id_attr = ''b'', offsetTop = 100, clientHeight = 100\<rparr>
   \<and> spec_intersection_ratio 600 0 \<lparr>id_attr = ''a'', offsetTop = 0, clientHeight = 100\<rparr>
       = spec_intersection_ratio 600 0 \<lparr>id_attr = ''b'', offsetTop = 100, clientHeight = 100\<rparr>
   \<and> legacy_current [\<lparr>id_attr = ''a'', offsetTop = 0, clientHeight = 100\<rparr>,
                      \<lparr>id_attr = ''b'', offsetTop = 100, clientHeight = 100\<rparr>] 0 = ''b''"
  by (simp add: scenario_defs legacy_current_def spec_intersection_ratio_def spec_intersects_def
      overlap_height_def)

section \<open>When no section intersects\<close>

text \<open>
  Claim C3, as the code has it. When no delivered entry is intersecting, the observer
  callback of script.js leaves every link exactly as it was. The scroll handler of the
  unnamed file keeps nothing: which links are active afterwards depends on their hrefs and
  on the id it selected only, and when no section has its top at most 200 below the
  scroll position, the links left active are exactly those whose href is \<^verbatim>\<open>#\<close>.
\<close>

theorem no_intersection_rules:
  "(filter isIntersecting entries = [] \<longrightarrow> sectionObserver_callback entries links = links)
   \<and> map is_active (legacy_scroll_handler secs y links)
       = map (\<lambda>l. href l = Some (CHR ''#'' # legacy_current secs y)) links
   \<and> (filter (\<lambda>s. of_int (offsetTop s - 200) \<le> y) secs = [] \<longrightarrow>
        (\<forall>l\<in>set (legacy_scroll_handler secs y links). is_active l \<longleftrightarrow> href l = Some ''#''))"
proof (intro conjI impI ballI)
  show "map is_active (legacy_scroll_handler secs y links)
       = map (\<lambda>l. href l = Some (CHR ''#'' # legacy_current secs y)) links"
    by (simp add: legacy_scroll_handler_def legacy_mark_link_active)
next
  assume "filter isIntersecting entries = []"
  then show "sectionObserver_callback entries links = links"
    by (simp add: callback_None most_visible_None)
next
  fix l
  assume none: "filter (\<lambda>s. of_int (offsetTop s - 200) \<le> y) secs = []"
    and l: "l \<in> set (legacy_scroll_handler secs y links)"
  have "legacy_current secs y = []" using none by (simp add: legacy_current_last)
  with l show "is_active l \<longleftrightarrow> href l = Some ''#''"
    by (auto simp: legacy_scroll_handler_def legacy_mark_link_active legacy_mark_link_href)
qed

theorem no_intersection_rules_witness:
  "sectionObserver_callback
     [\<lparr>target = about_section, isIntersecting = False, intersectionRatio = 0\<rparr>]
     [about_link, \<lparr>href = Some ''#'', classList = {''nav-link''}\<rparr>]
     = [about_link, \<lparr>href = Some ''#'', classList = {''nav-link''}\<rparr>]
   \<and> map is_active (legacy_scroll_handler
        [\<lparr>id_attr = ''about'', offsetTop = 1000, clientHeight = 800\<rparr>] 0
        [about_link, \<lparr>href = Some ''#'', classList = {''nav-link''}\<rparr>]) = [False, True]"
  using no_intersection_rules
    [of "[\<lparr>target = about_section, isIntersecting = False, intersectionRatio = 0\<rparr>]"
        "[about_link, \<lparr>href = Some ''#'', classList = {''nav-link''}\<rparr>]"
        "[\<lparr>id_attr = ''about'', offsetTop = 1000, clientHeight = 800\<rparr>]" 0]
  by (simp add: scenario_defs handler_defs)

text \<open>
  The claim as stated fails on the scroll handler: a section at top 1000 does not
  intersect a viewport of height 600 at scroll position 0, the link to about is active,
  and after the handler has run it is not.
\<close>

theorem scroll_handler_clears_active:
  "\<not> (\<exists>s\<in>set [\<lparr>id_attr = ''about'', offsetTop = 1000, clientHeight = 800\<rparr>].
         spec_intersects 600 0 s)
   \<and> is_active about_link
   \<and> map is_active (legacy_scroll_handler
        [\<lparr>id_attr = ''about'', offsetTop = 1000, clientHeight = 800\<rparr>] 0 [about_link]) = [False]"
  by (simp add: scenario_defs handler_defs spec_intersects_def overlap_height_def)

section \<open>Scroll notifications and recomputations\<close>

text \<open>
  Claim C5, as the code has it. In script.js, from a state with nothing scheduled, the
  scroll notifications of one frame schedule a single run of \<^verbatim>\<open>onScroll\<close>; nothing runs
  before the frame, and at the frame \<^verbatim>\<open>onScroll\<close> runs once, at the position of the last
  notification. That run sets the classes of the navbar and of the scroll-to-top button,
  not the active link. In the unnamed file the active-link handler runs once for each
  notification, at that notification's position.
\<close>

theorem scroll_coalescing:
  "(\<not> ticking st \<and> raf_queue st = 0 \<and> ys \<noteq> [] \<longrightarrow>
      raf_queue (script_run st (map Scroll ys)) = 1
      \<and> onScroll_trace (script_run st (map Scroll ys)) = onScroll_trace st
      \<and> onScroll_trace (script_run st (map Scroll ys @ [AnimationFrame]))
          = onScroll_trace st @ [last ys]
      \<and> raf_queue (script_run st (map Scroll ys @ [AnimationFrame])) = 0
      \<and> \<not> ticking (script_run st (map Scroll ys @ [AnimationFrame])))
   \<and> recompute_trace (legacy_run secs lst (map Scroll ys)) = recompute_trace lst @ ys"
proof (intro conjI impI)
  assume a: "\<not> ticking st \<and> raf_queue st = 0 \<and> ys \<noteq> []"
  then have r: "script_run st (map Scroll ys) =
      st\<lparr>window_scrollY := last ys, raf_queue := 1, ticking := True\<rparr>"
    using scrolls_in_one_frame [of st ys] by simp
  show "raf_queue (script_run st (map Scroll ys)) = 1" by (simp add: r)
  show "onScroll_trace (script_run st (map Scroll ys)) = onScroll_trace st" by (simp add: r)
  show "onScroll_trace (script_run st (map Scroll ys @ [AnimationFrame]))
          = onScroll_trace st @ [last ys]"
    by (simp add: script_run_snoc r onScroll_def Let_def)
  show "raf_queue (script_run st (map Scroll ys @ [AnimationFrame])) = 0"
    by (simp add: script_run_snoc r onScroll_def Let_def)
  show "\<not> ticking (script_run st (map Scroll ys @ [AnimationFrame]))"
    by (simp add: script_run_snoc r onScroll_def Let_def)
next
  show "recompute_trace (legacy_run secs lst (map Scroll ys)) = recompute_trace lst @ ys"
    by (rule legacy_run_trace)
qed

theorem scroll_coalescing_witness:
  "onScroll_trace (script_run idle_script (map Scroll [10, 20, 30] @ [AnimationFrame])) = [30]
   \<and> navbar_classes (script_run idle_script (map Scroll [10, 20, 30] @ [AnimationFrame]))
       = Some {''navbar'', ''scrolled''}
   \<and> recompute_trace (legacy_run [about_section, work_section]
        \<lparr>legacy_links = [about_link, work_link], recompute_trace = []\<rparr> (map Scroll [10, 20, 30]))
       = [10, 20, 30]"
  using scroll_coalescing
    [of idle_script "[10, 20, 30]" "[about_section, work_section]"
        "\<lparr>legacy_links = [about_link, work_link], recompute_trace = []\<rparr>"]
  by (auto simp: idle_script_def script_run_def scroll_listener_def onScroll_def
      classList_toggle_def classList_add_def classList_remove_def)

text \<open>
  The claim as stated fails on the unnamed file: fifty scroll notifications within one
  frame cause fifty recomputations of the active link.
\<close>

theorem legacy_recomputes_each_notification:
  "length (recompute_trace (legacy_run [about_section, work_section]
      \<lparr>legacy_links = [about_link, work_link], recompute_trace = []\<rparr>
      (map Scroll (map of_nat [1..<51]) @ [AnimationFrame]))) = 50"
proof -
  have h: "recompute_trace (legacy_run secs st (map Scroll zs @ [AnimationFrame]))
          = recompute_trace st @ zs" for secs st zs
    using legacy_run_trace [of secs st zs] by (simp add: legacy_run_def)
  have "recompute_trace (legacy_run [about_section, work_section]
      \<lparr>legacy_links = [about_link, work_link], recompute_trace = []\<rparr>
      (map Scroll (map of_nat [1..<51]) @ [AnimationFrame]))
    = recompute_trace \<lparr>legacy_links = [about_link, work_link], recompute_trace = []\<rparr>
        @ map of_nat [1..<51]"
    by (rule h)
  then show ?thesis by simp
qed

section \<open>Sections without height or offset\<close>

text \<open>
  Claim C6, as the code has it. No section is excluded for its height or offset. The
  scroll handler's selection does not depend on any section's height, and a section whose
  top offset is zero or negative passes the handler's test at every scroll position from
  0 on, so it is selected when it is the last section. The observer callback selects by
  \<^verbatim>\<open>isIntersecting\<close> and \<^verbatim>\<open>intersectionRatio\<close> alone: replacing the targets of the delivered
  entries by any others does not change which entry it selects, and an intersecting entry
  whose ratio is greater than that of every other intersecting entry is selected whatever
  the height or offset of its target. Both are total functions: there is no failure on
  such input.
\<close>

theorem no_exclusion_by_size:
  "legacy_current (map (\<lambda>s. s\<lparr>clientHeight := h s\<rparr>) secs) y = legacy_current secs y
   \<and> (offsetTop s \<le> 0 \<and> 0 \<le> y \<longrightarrow> legacy_current (secs @ [s]) y = id_attr s)
   \<and> most_visible (map (\<lambda>e. e\<lparr>target := f e\<rparr>) entries)
       = map_option (\<lambda>e. e\<lparr>target := f e\<rparr>) (most_visible entries)
   \<and> (e \<in> set entries \<and> isIntersecting e
        \<and> (\<forall>e'\<in>set entries. isIntersecting e' \<and> e' \<noteq> e \<longrightarrow>
              intersectionRatio e' < intersectionRatio e)
        \<longrightarrow> most_visible entries = Some e)"
proof (intro conjI impI)
  show "legacy_current (map (\<lambda>s. s\<lparr>clientHeight := h s\<rparr>) secs) y = legacy_current secs y"
    by (rule legacy_current_height_irrelevant)
next
  assume a: "offsetTop s \<le> 0 \<and> 0 \<le> y"
  then have "offsetTop s - 200 \<le> 0" by simp
  then have "(of_int (offsetTop s - 200) :: rat) \<le> 0" by (simp only: of_int_le_0_iff)
  with a have "of_int (offsetTop s - 200) \<le> y" by simp
  then show "legacy_current (secs @ [s]) y = id_attr s"
    by (rule legacy_current_append_pass)
next
  show "most_visible (map (\<lambda>e. e\<lparr>target := f e\<rparr>) entries)
       = map_option (\<lambda>e. e\<lparr>target := f e\<rparr>) (most_visible entries)"
    by (rule most_visible_retarget)
next
  assume "e \<in> set entries \<and> isIntersecting e
        \<and> (\<forall>e'\<in>set entries. isIntersecting e' \<and> e' \<noteq> e \<longrightarrow>
              intersectionRatio e' < intersectionRatio e)"
  then show "most_visible entries = Some e" by (intro most_visible_strict_max) simp_all
qed

theorem no_exclusion_by_size_witness:
  "legacy_current ([work_section] @ [flat_section]) 3 = ''flat''
   \<and> most_visible
       [\<lparr>target = work_section, isIntersecting = True, intersectionRatio = 1 / 2\<rparr>,
        \<lparr>target = flat_section, isIntersecting = True, intersectionRatio = 1\<rparr>]
     = Some \<lparr>target = flat_section, isIntersecting = True, intersectionRatio = 1\<rparr>
   \<and> most_visible
       (map (\<lambda>e. e\<lparr>target := flat_section\<rparr>)
         [\<lparr>target = work_section, isIntersecting = True, intersectionRatio = 1 / 2\<rparr>,
          \<lparr>target = flat_section, isIntersecting = True, intersectionRatio = 1\<rparr>])
     = Some \<lparr>target = flat_section, isIntersecting = True, intersectionRatio = 1\<rparr>"
  using no_exclusion_by_size
    [where h = "\<lambda>s. 0" and secs = "[work_section]" and y = 3 and s = flat_section
       and f = "\<lambda>e. flat_section"
       and entries =
         "[\<lparr>target = work_section, isIntersecting = True, intersectionRatio = 1 / 2\<rparr>,
           \<lparr>target = flat_section, isIntersecting = True, intersectionRatio = 1\<rparr>]"
       and e = "\<lparr>target = flat_section, isIntersecting = True, intersectionRatio = 1\<rparr>"]
  by (simp add: scenario_defs handler_defs)

text \<open>
  The claim as stated fails: a section with top offset 0 and height 0 is selected at
  scroll position 0 and its link becomes active; so is the scenario's about section,
  whose top offset is 0.
\<close>

theorem zero_offset_section_selected:
  "legacy_current [\<lparr>id_attr = ''about'', offsetTop = 0, clientHeight = 0\<rparr>] 0 = ''about''
   \<and> map is_active (legacy_scroll_handler
        [\<lparr>id_attr = ''about'', offsetTop = 0, clientHeight = 0\<rparr>] 0
        [\<lparr>href = Some ''#about'', classList = {''nav-link''}\<rparr>]) = [True]
   \<and> legacy_current [about_section, work_section] 0 = ''about''"
  by (simp add: scenario_defs handler_defs)

section \<open>Without IntersectionObserver\<close>




section \<open>A missing navbar\<close>

text \<open>
  Claim C8 says that no exception leaves an event handler, also when the navbar is
  missing. The navbar shadow handler of the unnamed file throws a TypeError at every
  scroll position when the page has no navbar; \<^verbatim>\<open>onScroll\<close> of script.js tests
  \<^verbatim>\<open>if (navbar)\<close> first.
\<close>

theorem navbar_missing_throws: "navbar_scroll_effect None scrollY = Inl TypeError"
  by (simp add: navbar_scroll_effect_def)

section \<open>Empty section or link sets\<close>

text \<open>
  Claim C9, as the code has it. With no navigation links both handlers return the empty
  list. With no delivered entries the observer callback leaves the links as they are,
  and with no sections script.js creates no section observer and leaves the links as
  they are. The scroll handler of the unnamed file, run with no sections, is not a no-op:
  afterwards exactly the links whose href is \<^verbatim>\<open>#\<close> are active.
\<close>

theorem empty_sets_rules:
  "sectionObserver_callback entries [] = []
   \<and> legacy_scroll_handler secs y [] = []
   \<and> sectionObserver_callback [] links = links
   \<and> (sections pg = [] \<and> SectionObserver \<notin> observing pg \<longrightarrow>
        SectionObserver \<notin> observing (script_init pg) \<and> navLinks (script_init pg) = navLinks pg)
   \<and> (\<forall>l\<in>set (legacy_scroll_handler [] y links). is_active l \<longleftrightarrow> href l = Some ''#'')"
proof (intro conjI impI ballI)
  show "sectionObserver_callback entries [] = []"
    by (simp add: sectionObserver_callback_def split: option.splits)
  show "legacy_scroll_handler secs y [] = []"
    by (simp add: legacy_scroll_handler_def)
  show "sectionObserver_callback [] links = links"
    by (simp add: sectionObserver_callback_def most_visible_def js_sort_def)
next
  assume "sections pg = [] \<and> SectionObserver \<notin> observing pg"
  then show "SectionObserver \<notin> observing (script_init pg)" by (simp add: init_no_sections)
next
  show "navLinks (script_init pg) = navLinks pg" by (rule init_nav_links)
next
  fix l assume "l \<in> set (legacy_scroll_handler [] y links)"
  then show "is_active l \<longleftrightarrow> href l = Some ''#''"
    by (auto simp: legacy_scroll_handler_def legacy_current_def legacy_mark_link_active
        legacy_mark_link_href)
qed

theorem empty_sets_rules_witness:
  "SectionObserver \<notin> observing (script_init (bare_page\<lparr>sections := [], hasIntersectionObserver := True\<rparr>))
   \<and> map is_active (legacy_scroll_handler [] 0
        [work_link, \<lparr>href = Some ''#'', classList = {''nav-link''}\<rparr>]) = [False, True]"
  using empty_sets_rules
    [of "[]" "[]" 0 "[work_link, \<lparr>href = Some ''#'', classList = {''nav-link''}\<rparr>]"
        "bare_page\<lparr>sections := [], hasIntersectionObserver := True\<rparr>"]
  by (simp add: scenario_defs handler_defs bare_page_def)

text \<open>
  The claim as stated fails on the scroll handler: with no sections, a run removes the
  active marking of the link to about.
\<close>

theorem empty_sections_clear_active:
  "is_active about_link
   \<and> map is_active (legacy_scroll_handler [] 0 [about_link]) = [False]"
  by (simp add: scenario_defs handler_defs)

section \<open>The two highlighting implementations compared\<close>

text \<open>
  Claim C10, as the code has it. The two implementations are not equivalent. Take the
  observer's report of every section, at any navbar height, viewport height and scroll
  position. When every section has a positive height and less than 35 percent of it inside
  the observer's root, the callback leaves the links as they are. The scroll handler
  marks exactly the links to the last section whose top is at most 200 below the scroll
  position. The two leave the links in the same state when that section has at least 35
  percent of its positive height inside the root and every other section has a positive
  height and less than 35 percent of it inside the root.
\<close>

theorem handlers_agree_when:
  "((\<forall>t\<in>set secs. 0 < clientHeight t
       \<and> overlap_height (root_top navH y) (root_bottom vh y) t < 35 / 100 * of_int (clientHeight t))
     \<longrightarrow> sectionObserver_callback (observe_all navH vh y secs) links = links)
   \<and> (of_int (offsetTop s - 200) \<le> y \<and> (\<forall>t\<in>set post. y < of_int (offsetTop t - 200))
     \<longrightarrow> map is_active (legacy_scroll_handler (pre @ s # post) y links)
           = map (\<lambda>l. href l = Some (CHR ''#'' # id_attr s)) links)
   \<and> (0 < clientHeight s
       \<and> 35 / 100 * of_int (clientHeight s) \<le> overlap_height (root_top navH y) (root_bottom vh y) s
       \<and> (\<forall>t\<in>set (pre @ post). 0 < clientHeight t
            \<and> overlap_height (root_top navH y) (root_bottom vh y) t
                < 35 / 100 * of_int (clientHeight t))
       \<and> of_int (offsetTop s - 200) \<le> y \<and> (\<forall>t\<in>set post. y < of_int (offsetTop t - 200))
     \<longrightarrow> sectionObserver_callback (observe_all navH vh y (pre @ s # post)) links
           = legacy_scroll_handler (pre @ s # post) y links)"
proof (intro conjI impI)
  assume "\<forall>t\<in>set secs. 0 < clientHeight t
       \<and> overlap_height (root_top navH y) (root_bottom vh y) t < 35 / 100 * of_int (clientHeight t)"
  then have "filter isIntersecting (observe_all navH vh y secs) = []" by (rule observe_all_none)
  then show "sectionObserver_callback (observe_all navH vh y secs) links = links"
    by (simp add: callback_None most_visible_None)
next
  assume "of_int (offsetTop s - 200) \<le> y \<and> (\<forall>t\<in>set post. y < of_int (offsetTop t - 200))"
  then have "legacy_current (pre @ s # post) y = id_attr s" by (intro legacy_current_split) simp_all
  then show "map is_active (legacy_scroll_handler (pre @ s # post) y links)
           = map (\<lambda>l. href l = Some (CHR ''#'' # id_attr s)) links"
    by (simp add: legacy_handler_marking)
next
  assume a: "0 < clientHeight s
       \<and> 35 / 100 * of_int (clientHeight s) \<le> overlap_height (root_top navH y) (root_bottom vh y) s
       \<and> (\<forall>t\<in>set (pre @ post). 0 < clientHeight t
            \<and> overlap_height (root_top navH y) (root_bottom vh y) t
                < 35 / 100 * of_int (clientHeight t))
       \<and> of_int (offsetTop s - 200) \<le> y \<and> (\<forall>t\<in>set post. y < of_int (offsetTop t - 200))"
  then have "filter isIntersecting (observe_all navH vh y (pre @ s # post))
      = [observe_section navH vh y s]"
    by (intro observe_all_single) simp_all
  then have "most_visible (observe_all navH vh y (pre @ s # post)) = Some (observe_section navH vh y s)"
    by (rule most_visible_single)
  then have cb: "sectionObserver_callback (observe_all navH vh y (pre @ s # post)) links
      = map (legacy_mark_link (id_attr s)) links"
    by (simp add: callback_Some observe_section_target)
  have "legacy_current (pre @ s # post) y = id_attr s" using a by (intro legacy_current_split) simp_all
  then show "sectionObserver_callback (observe_all navH vh y (pre @ s # post)) links
           = legacy_scroll_handler (pre @ s # post) y links"
    by (simp add: cb legacy_scroll_handler_def)
qed

theorem handlers_agree_when_witness:
  "sectionObserver_callback (observe_all (getNavHeight None) 600 900 [about_section, work_section])
       [about_link, work_link]
     = [about_link, work_link]
   \<and> sectionObserver_callback (observe_all (getNavHeight None) 1000 0 ([] @ intro_section # [more_section]))
       [intro_link, more_link]
     = legacy_scroll_handler ([] @ intro_section # [more_section]) 0 [intro_link, more_link]
   \<and> map is_active (legacy_scroll_handler ([] @ intro_section # [more_section]) 0 [intro_link, more_link])
     = [True, False]"
  using handlers_agree_when
    [where secs = "[about_section, work_section]" and navH = "getNavHeight None" and vh = 600
       and y = 900 and links = "[about_link, work_link]" and pre = "[]" and s = work_section
       and post = "[]"]
    handlers_agree_when
    [where secs = "[]" and navH = "getNavHeight None" and vh = 1000
       and y = 0 and links = "[intro_link, more_link]" and pre = "[]" and s = intro_section
       and post = "[more_section]"]
  by (simp add: scenario_defs page_defs handler_defs observer_defs)

text \<open>
  The claim as stated fails. On the scenario page without a navbar, viewport height 600,
  scroll position 900, the observer reports no section as intersecting (its root is 194
  high, less than 35 percent of either section), so the callback leaves about active
  while the scroll handler marks work. On a page with two adjacent sections of height
  300, viewport height 1000, scroll position 99, both are reported and the callback
  selects the second, while the scroll handler selects the first.
\<close>

theorem handlers_differ:
  "filter isIntersecting (observe_all (getNavHeight None) 600 900 [about_section, work_section]) = []
   \<and> map is_active (sectionObserver_callback
        (observe_all (getNavHeight None) 600 900 [about_section, work_section])
        [about_link, work_link]) = [True, False]
   \<and> map is_active (legacy_scroll_handler [about_section, work_section] 900 [about_link, work_link])
     = [False, True]
   \<and> map (id_attr \<circ> target) (filter isIntersecting
        (observe_all (getNavHeight None) 1000 99 [first_section, second_section]))
     = [''first'', ''second'']
   \<and> map_option (id_attr \<circ> target)
        (most_visible (observe_all (getNavHeight None) 1000 99 [first_section, second_section]))
     = Some ''second''
   \<and> legacy_current [first_section, second_section] 99 = ''first''"
  by (simp add: scenario_defs page_defs handler_defs observer_defs)

end
